theory Spec2Isabelle
  imports Complex_Main
begin

section \<open>Python and pandas primitives used by the backtesting framework\<close>

text \<open>
  Exceptions are values: a computation that can raise returns \<open>exn + 'a\<close>, where the
  left injection carries the name of the Python exception class.
\<close>

type_synonym exn = string

text \<open>
  The builtin \<^verbatim>\<open>range(start, stop, step)\<close>. A zero step raises \<^verbatim>\<open>ValueError\<close>;
  otherwise CPython computes the number of elements once and the k-th element is
  \<open>start + k * step\<close>.
\<close>

definition range_len :: "int \<Rightarrow> int \<Rightarrow> int \<Rightarrow> nat" where
  "range_len start stop step =
     (if 0 < step then (if start < stop then nat ((stop - start - 1) div step + 1) else 0)
      else if step < 0 then (if stop < start then nat ((start - stop - 1) div (- step) + 1) else 0)
      else 0)"

definition py_range :: "int \<Rightarrow> int \<Rightarrow> int \<Rightarrow> exn + int list" where
  "py_range start stop step =
     (if step = 0 then Inl ''ValueError''
      else Inr (map (\<lambda>k. start + int k * step) [0..<range_len start stop step]))"

text \<open>
  Positional slicing \<^verbatim>\<open>data.iloc[a:b]\<close> follows Python's slice rules: a negative bound
  counts from the end, and both bounds are clamped to the length, so a slice that reaches
  past the end is silently shortened and never raises.
\<close>

definition slice_index :: "nat \<Rightarrow> int \<Rightarrow> nat" where
  "slice_index n i = (if i < 0 then nat (max (i + int n) 0) else min (nat i) n)"

definition iloc :: "'a list \<Rightarrow> int \<Rightarrow> int \<Rightarrow> 'a list" where
  "iloc xs a b =
     (let lo = slice_index (length xs) a; hi = slice_index (length xs) b
      in take (hi - lo) (drop lo xs))"

section \<open>WalkForwardAnalysis\<close>

record 'a WalkForwardAnalysis =
  wf_data :: "'a list"
  window_size :: int
  forecast_horizon :: int

text \<open>The constructor only stores its three arguments; it checks nothing.\<close>

definition WalkForwardAnalysis_init :: "'a list \<Rightarrow> int \<Rightarrow> int \<Rightarrow> 'a WalkForwardAnalysis" where
  "WalkForwardAnalysis_init d w h = \<lparr>wf_data = d, window_size = w, forecast_horizon = h\<rparr>"

text \<open>
  The four bounds computed in the loop body for one value of \<^verbatim>\<open>start\<close>:
  \<open>(train_start, train_end, test_start, test_end)\<close>.
\<close>

definition split_bounds :: "'a WalkForwardAnalysis \<Rightarrow> int \<Rightarrow> int \<times> int \<times> int \<times> int" where
  "split_bounds self start =
     (let train_start = start;
          train_end = start + window_size self;
          test_start = train_end;
          test_end = test_start + forecast_horizon self
      in (train_start, train_end, test_start, test_end))"

definition split_pair :: "'a WalkForwardAnalysis \<Rightarrow> int \<Rightarrow> 'a list \<times> 'a list" where
  "split_pair self start =
     (case split_bounds self start of
        (train_start, train_end, test_start, test_end) \<Rightarrow>
          (iloc (wf_data self) train_start train_end, iloc (wf_data self) test_start test_end))"

text \<open>
  The generator, run to exhaustion: the list of all pairs it yields, or the exception
  that \<^verbatim>\<open>range\<close> raises when the loop is entered, before the first pair.
\<close>

definition generate_walk_forward_splits ::
  "'a WalkForwardAnalysis \<Rightarrow> exn + ('a list \<times> 'a list) list" where
  "generate_walk_forward_splits self =
     (case py_range 0 (int (length (wf_data self)) - window_size self) (forecast_horizon self) of
        Inl e \<Rightarrow> Inl e
      | Inr starts \<Rightarrow> Inr (map (split_pair self) starts))"


section \<open>numpy arithmetic\<close>

text \<open>
  A numpy \<^verbatim>\<open>float64\<close> is a finite number, an infinity or NaN; the sign of zero is not
  kept. The exact result of an operation on finite numbers is rounded to a
  \<^verbatim>\<open>float64\<close>, or overflows to an infinity. The rounding \<open>fl\<close> and the reductions of
  numpy and pandas, whose results depend on the order in which the library adds, are
  parameters of the model: a property proved for every \<open>numpy\<close> record holds for the
  arithmetic of the machine. numpy arithmetic never raises: a division by zero returns an
  infinity or NaN (with a warning), and NaN propagates through every later operation.
\<close>

datatype npfloat = Fin real | PosInf | NegInf | NaN

record numpy =
  fl :: "real \<Rightarrow> npfloat"
  np_sum :: "real list \<Rightarrow> npfloat"
  np_mean :: "real list \<Rightarrow> npfloat"
  np_var :: "real list \<Rightarrow> npfloat"
  np_std :: "real list \<Rightarrow> npfloat"
  np_cov_value :: "real list \<Rightarrow> real list \<Rightarrow> npfloat"

definition inf_of_sign :: "real \<Rightarrow> npfloat" where
  "inf_of_sign a = (if a = 0 then NaN else if 0 < a then PosInf else NegInf)"

fun np_add :: "'z numpy_scheme \<Rightarrow> npfloat \<Rightarrow> npfloat \<Rightarrow> npfloat" where
  "np_add np NaN _ = NaN"
| "np_add np _ NaN = NaN"
| "np_add np (Fin a) (Fin b) = fl np (a + b)"
| "np_add np (Fin a) y = y"
| "np_add np x (Fin b) = x"
| "np_add np PosInf PosInf = PosInf"
| "np_add np NegInf NegInf = NegInf"
| "np_add np _ _ = NaN"

fun np_neg :: "npfloat \<Rightarrow> npfloat" where
  "np_neg (Fin a) = Fin (- a)"
| "np_neg PosInf = NegInf"
| "np_neg NegInf = PosInf"
| "np_neg NaN = NaN"

definition np_sub :: "'z numpy_scheme \<Rightarrow> npfloat \<Rightarrow> npfloat \<Rightarrow> npfloat" where
  "np_sub np x y = np_add np x (np_neg y)"

fun np_mul :: "'z numpy_scheme \<Rightarrow> npfloat \<Rightarrow> npfloat \<Rightarrow> npfloat" where
  "np_mul np NaN _ = NaN"
| "np_mul np _ NaN = NaN"
| "np_mul np (Fin a) (Fin b) = fl np (a * b)"
| "np_mul np (Fin a) PosInf = inf_of_sign a"
| "np_mul np (Fin a) NegInf = inf_of_sign (- a)"
| "np_mul np PosInf (Fin b) = inf_of_sign b"
| "np_mul np NegInf (Fin b) = inf_of_sign (- b)"
| "np_mul np PosInf PosInf = PosInf"
| "np_mul np NegInf NegInf = PosInf"
| "np_mul np _ _ = NegInf"

fun np_div :: "'z numpy_scheme \<Rightarrow> npfloat \<Rightarrow> npfloat \<Rightarrow> npfloat" where
  "np_div np NaN _ = NaN"
| "np_div np _ NaN = NaN"
| "np_div np (Fin a) (Fin b) = (if b = 0 then inf_of_sign a else fl np (a / b))"
| "np_div np (Fin a) _ = Fin 0"
| "np_div np PosInf (Fin b) = (if 0 \<le> b then PosInf else NegInf)"
| "np_div np NegInf (Fin b) = (if 0 \<le> b then NegInf else PosInf)"
| "np_div np _ _ = NaN"

fun np_le :: "npfloat \<Rightarrow> npfloat \<Rightarrow> bool" where
  "np_le NaN _ = False"
| "np_le _ NaN = False"
| "np_le (Fin a) (Fin b) = (a \<le> b)"
| "np_le NegInf _ = True"
| "np_le _ PosInf = True"
| "np_le _ _ = False"

section \<open>numpy statistics\<close>

text \<open>
  The exact values that \<^verbatim>\<open>np.mean\<close>, \<^verbatim>\<open>np.var\<close> and \<^verbatim>\<open>np.cov\<close> approximate.
  \<^verbatim>\<open>np.var\<close> and \<^verbatim>\<open>np.std\<close> use the population estimator (\<^verbatim>\<open>ddof=0\<close>: divide by
  N); \<^verbatim>\<open>np.cov\<close> uses the sample estimator (\<^verbatim>\<open>ddof=1\<close>: divide by N - 1).
\<close>

definition mean :: "real list \<Rightarrow> real" where
  "mean xs = sum_list xs / real (length xs)"

definition variance :: "real list \<Rightarrow> real" where
  "variance xs = sum_list (map (\<lambda>x. (x - mean xs)\<^sup>2) xs) / real (length xs)"

definition covariance :: "real list \<Rightarrow> real list \<Rightarrow> real" where
  "covariance xs ys =
     sum_list (map (\<lambda>(x, y). (x - mean xs) * (y - mean ys)) (zip xs ys)) / (real (length xs) - 1)"

text \<open>
  The library that computes every reduction exactly and rounds the result once with \<open>r\<close>.
  The mean, the variance and the standard deviation of an empty array are NaN, and so is
  the covariance of fewer than two observations. With \<open>r = Fin\<close> nothing is rounded:
  this is what the machine computes on inputs where every intermediate result is a
  \<^verbatim>\<open>float64\<close>. With \<open>r = overflow_only\<close> a result of magnitude \<open>2 ^ 1024\<close> or more
  overflows, as on the machine, and the others are kept exact.
\<close>

definition exact_numpy :: "(real \<Rightarrow> npfloat) \<Rightarrow> numpy" where
  "exact_numpy r =
     \<lparr>fl = r,
      np_sum = (\<lambda>xs. r (sum_list xs)),
      np_mean = (\<lambda>xs. if xs = [] then NaN else r (mean xs)),
      np_var = (\<lambda>xs. if xs = [] then NaN else r (variance xs)),
      np_std = (\<lambda>xs. if xs = [] then NaN else r (sqrt (variance xs))),
      np_cov_value = (\<lambda>xs ys. if length xs \<le> 1 then NaN else r (covariance xs ys))\<rparr>"

definition overflow_threshold :: real where
  "overflow_threshold = 2 ^ 1024"

definition overflow_only :: "real \<Rightarrow> npfloat" where
  "overflow_only x = (if overflow_threshold \<le> \<bar>x\<bar> then inf_of_sign x else Fin x)"

text \<open>
  \<^verbatim>\<open>np.cov(x, y)[0, 1]\<close>: the off-diagonal entry of the covariance matrix of two
  one-dimensional arrays. \<^verbatim>\<open>np.cov\<close> stacks its arguments and raises \<^verbatim>\<open>ValueError\<close>
  when their lengths differ.
\<close>

definition np_cov01 :: "'z numpy_scheme \<Rightarrow> real list \<Rightarrow> real list \<Rightarrow> exn + npfloat" where
  "np_cov01 np xs ys =
     (if length xs \<noteq> length ys then Inl ''ValueError'' else Inr (np_cov_value np xs ys))"

text \<open>\<^verbatim>\<open>np.cumprod\<close> along a row: the first entry, then the running products.\<close>

fun cumprod_from :: "'z numpy_scheme \<Rightarrow> npfloat \<Rightarrow> npfloat list \<Rightarrow> npfloat list" where
  "cumprod_from np acc [] = []"
| "cumprod_from np acc (x # xs) = np_mul np acc x # cumprod_from np (np_mul np acc x) xs"

definition np_cumprod :: "'z numpy_scheme \<Rightarrow> npfloat list \<Rightarrow> npfloat list" where
  "np_cumprod np xs = (case xs of [] \<Rightarrow> [] | x # xs' \<Rightarrow> x # cumprod_from np x xs')"

text \<open>
  \<^verbatim>\<open>np.percentile(a, q)\<close> of a one-dimensional array with the default linear
  interpolation. An empty array raises \<^verbatim>\<open>IndexError\<close>, and an array that holds a NaN
  gives NaN. Otherwise the array is sorted, the virtual index is \<open>q / 100 * (n - 1)\<close>, and
  the result interpolates between the element \<open>a\<close> at its floor and the element \<open>b\<close> at the
  next index (clipped to the last one): with the fraction \<open>g\<close> of the virtual index it is
  \<open>a + (b - a) * g\<close> when \<open>g < 1/2\<close> and \<open>b - (b - a) * (1 - g)\<close> otherwise.
\<close>

fun np_insort :: "npfloat \<Rightarrow> npfloat list \<Rightarrow> npfloat list" where
  "np_insort x [] = [x]"
| "np_insort x (y # ys) = (if np_le x y then x # y # ys else y # np_insort x ys)"

definition np_sort :: "npfloat list \<Rightarrow> npfloat list" where
  "np_sort xs = foldr np_insort xs []"

definition lerp :: "'z numpy_scheme \<Rightarrow> npfloat \<Rightarrow> npfloat \<Rightarrow> real \<Rightarrow> npfloat" where
  "lerp np a b g =
     (let diff_b_a = np_sub np b a
      in if 1 / 2 \<le> g then np_sub np b (np_mul np diff_b_a (Fin (1 - g)))
         else np_add np a (np_mul np diff_b_a (Fin g)))"

definition percentile_value :: "'z numpy_scheme \<Rightarrow> npfloat list \<Rightarrow> real \<Rightarrow> npfloat" where
  "percentile_value np xs q =
     (if NaN \<in> set xs then NaN
      else let s = np_sort xs;
               n = length xs;
               h = q / 100 * real (n - 1);
               lo = min (nat \<lfloor>h\<rfloor>) (n - 1);
               hi = min (lo + 1) (n - 1);
               g = h - real lo
           in lerp np (s ! lo) (s ! hi) g)"

definition np_percentile :: "'z numpy_scheme \<Rightarrow> npfloat list \<Rightarrow> real \<Rightarrow> exn + npfloat" where
  "np_percentile np xs q =
     (if xs = [] then Inl ''IndexError'' else Inr (percentile_value np xs q))"

text \<open>
  The first exception of a sequence of results, or all their values.
\<close>

fun collect :: "(exn + 'a) list \<Rightarrow> exn + 'a list" where
  "collect [] = Inr []"
| "collect (Inl e # rs) = Inl e"
| "collect (Inr v # rs) = (case collect rs of Inl e \<Rightarrow> Inl e | Inr vs \<Rightarrow> Inr (v # vs))"

text \<open>
  \<^verbatim>\<open>np.percentile(a, qs, axis=0)\<close> of a two-dimensional array with \<open>ncols\<close> columns:
  one row of results per percentile, one entry per column. The number of columns is part
  of the array's shape, which a list of rows loses when there is no row, so it is passed
  along.
\<close>

definition column :: "'a list list \<Rightarrow> nat \<Rightarrow> 'a list" where
  "column rows t = map (\<lambda>row. row ! t) rows"

definition np_percentile_axis0 ::
  "'z numpy_scheme \<Rightarrow> nat \<Rightarrow> npfloat list list \<Rightarrow> real list \<Rightarrow> exn + npfloat list list" where
  "np_percentile_axis0 np ncols rows qs =
     collect (map (\<lambda>q. collect (map (\<lambda>t. np_percentile np (column rows t) q) [0..<ncols])) qs)"

section \<open>MonteCarloSimulation\<close>

text \<open>
  The dictionary of confidence intervals has the two keys \<^verbatim>\<open>'95%'\<close> and \<^verbatim>\<open>'99%'\<close>;
  each value has two rows, the lower and the upper bound, with one entry per period.
\<close>

record confidence_intervals =
  ci_95 :: "npfloat list list"
  ci_99 :: "npfloat list list"

record simulation_result =
  simulations :: "npfloat list list"
  portfolio_values :: "npfloat list list"
  confidence_intervals :: confidence_intervals

definition calculate_confidence_intervals ::
  "'z numpy_scheme \<Rightarrow> nat \<Rightarrow> npfloat list list \<Rightarrow> exn + confidence_intervals" where
  "calculate_confidence_intervals np ncols portfolio_values' =
     (case np_percentile_axis0 np ncols portfolio_values' [2.5, 97.5] of
        Inl e \<Rightarrow> Inl e
      | Inr band_95 \<Rightarrow>
          (case np_percentile_axis0 np ncols portfolio_values' [0.5, 99.5] of
             Inl e \<Rightarrow> Inl e
           | Inr band_99 \<Rightarrow> Inr \<lparr>ci_95 = band_95, ci_99 = band_99\<rparr>))"

text \<open>
  \<^verbatim>\<open>np.random.normal(mu, sigma, (num_simulations, num_periods))\<close> draws each entry as
  \<open>mu + sigma * z\<close> with \<open>z\<close> a standard normal draw; the draws are an input of the model,
  \<open>rng i j\<close> being the one used for entry \<open>(i, j)\<close>. A negative dimension raises
  \<^verbatim>\<open>ValueError\<close>.
\<close>

definition np_random_normal ::
  "'z numpy_scheme \<Rightarrow> (nat \<Rightarrow> nat \<Rightarrow> real) \<Rightarrow> npfloat \<Rightarrow> npfloat \<Rightarrow> int \<Rightarrow> int \<Rightarrow>
     exn + npfloat list list" where
  "np_random_normal np rng mu sigma nrows ncols =
     (if nrows < 0 \<or> ncols < 0 then Inl ''ValueError''
      else Inr (map (\<lambda>i. map (\<lambda>j. np_add np mu (np_mul np sigma (Fin (rng i j)))) [0..<nat ncols])
                  [0..<nat nrows]))"

text \<open>
  \<^verbatim>\<open>simulate(self, num_simulations=10000, num_periods=252)\<close>: an argument the caller
  leaves out is \<open>None\<close> and takes its default.
\<close>

definition default_arg :: "'a \<Rightarrow> 'a option \<Rightarrow> 'a" where
  "default_arg d arg = (case arg of None \<Rightarrow> d | Some v \<Rightarrow> v)"

definition simulate ::
  "'z numpy_scheme \<Rightarrow> (nat \<Rightarrow> nat \<Rightarrow> real) \<Rightarrow> real list \<Rightarrow> int option \<Rightarrow> int option \<Rightarrow>
     exn + simulation_result" where
  "simulate np rng returns num_simulations_arg num_periods_arg =
     (let num_simulations = default_arg 10000 num_simulations_arg;
          num_periods = default_arg 252 num_periods_arg;
          mu = np_mean np returns;
          sigma = np_std np returns
      in case np_random_normal np rng mu sigma num_simulations num_periods of
           Inl e \<Rightarrow> Inl e
         | Inr simulations' \<Rightarrow>
             let portfolio_values' =
                   map (\<lambda>row. np_cumprod np (map (np_add np (Fin 1)) row)) simulations'
             in case calculate_confidence_intervals np (nat num_periods) portfolio_values' of
                  Inl e \<Rightarrow> Inl e
                | Inr intervals \<Rightarrow>
                    Inr \<lparr>simulations = simulations',
                         portfolio_values = portfolio_values',
                         confidence_intervals = intervals\<rparr>)"

text \<open>
  What a caller reads off a result at the period with index \<open>t\<close>: the value of the first
  simulated path, and the four bounds in the order lower 99%, lower 95%, upper 95%,
  upper 99%.
\<close>

definition period_bounds :: "exn + simulation_result \<Rightarrow> nat \<Rightarrow> exn + npfloat \<times> npfloat list" where
  "period_bounds r t =
     (case r of
        Inl e \<Rightarrow> Inl e
      | Inr res \<Rightarrow>
          Inr (portfolio_values res ! 0 ! t,
               [ci_99 (confidence_intervals res) ! 0 ! t, ci_95 (confidence_intervals res) ! 0 ! t,
                ci_95 (confidence_intervals res) ! 1 ! t, ci_99 (confidence_intervals res) ! 1 ! t]))"

text \<open>The source of draws whose every draw is \<open>z\<close>.\<close>

definition constant_draws :: "real \<Rightarrow> nat \<Rightarrow> nat \<Rightarrow> real" where
  "constant_draws z i j = z"

section \<open>RiskDecomposition\<close>

record RiskDecomposition =
  rd_returns :: "real list"
  benchmark_returns :: "real list"

definition calculate_beta :: "'z numpy_scheme \<Rightarrow> RiskDecomposition \<Rightarrow> exn + npfloat" where
  "calculate_beta np self =
     (case np_cov01 np (rd_returns self) (benchmark_returns self) of
        Inl e \<Rightarrow> Inl e
      | Inr covariance' \<Rightarrow>
          let benchmark_variance = np_var np (benchmark_returns self)
          in Inr (np_div np covariance' benchmark_variance))"

text \<open>
  When \<open>calculate_beta\<close> has returned, both series have the same length, so the
  element-wise operations pair the entries up.
\<close>

definition calculate_specific_risk :: "'z numpy_scheme \<Rightarrow> RiskDecomposition \<Rightarrow> exn + npfloat list" where
  "calculate_specific_risk np self =
     (case calculate_beta np self of
        Inl e \<Rightarrow> Inl e
      | Inr beta \<Rightarrow>
          let market_component = map (\<lambda>b. np_mul np beta (Fin b)) (benchmark_returns self)
          in Inr (map (\<lambda>(r, m). np_sub np (Fin r) m) (zip (rd_returns self) market_component)))"

definition calculate_total_risk :: "'z numpy_scheme \<Rightarrow> RiskDecomposition \<Rightarrow> npfloat" where
  "calculate_total_risk np self = np_std np (rd_returns self)"

text \<open>
  The weights are \<^verbatim>\<open>np.ones(N) / N\<close>; the product with the returns and the division by
  the volatility are element-wise, so nothing is divided when the series is empty.
\<close>

definition calculate_risk_contribution :: "'z numpy_scheme \<Rightarrow> RiskDecomposition \<Rightarrow> npfloat list" where
  "calculate_risk_contribution np self =
     (let weight = np_div np (Fin 1) (Fin (real (length (rd_returns self))));
          portfolio_volatility = np_std np (rd_returns self)
      in map (\<lambda>r. np_div np (np_mul np weight (Fin r)) portfolio_volatility) (rd_returns self))"

record risk_report =
  market_risk :: npfloat
  specific_risk :: "npfloat list"
  total_risk :: npfloat
  risk_contribution :: "npfloat list"

definition decompose_risk :: "'z numpy_scheme \<Rightarrow> RiskDecomposition \<Rightarrow> exn + risk_report" where
  "decompose_risk np self =
     (case calculate_beta np self of
        Inl e \<Rightarrow> Inl e
      | Inr beta \<Rightarrow>
          (case calculate_specific_risk np self of
             Inl e \<Rightarrow> Inl e
           | Inr specific \<Rightarrow>
               Inr \<lparr>market_risk = beta,
                    specific_risk = specific,
                    total_risk = calculate_total_risk np self,
                    risk_contribution = calculate_risk_contribution np self\<rparr>))"

section \<open>StatisticalValidator\<close>

text \<open>
  The tests themselves are functions of scipy and numpy, outside the repository. They are
  parameters of the model: each takes the return series and returns a result or raises.
  The name \<open>acorr_ljungbox\<close> stands for the attribute chain
  \<^verbatim>\<open>stats.diagnostic.acorr_ljungbox\<close>, whose look-up may itself raise.
\<close>

record 't stats_library =
  shapiro :: "real list \<Rightarrow> exn + 't"
  jarque_bera :: "real list \<Rightarrow> exn + 't"
  anderson :: "real list \<Rightarrow> exn + 't"
  acorr_ljungbox :: "real list \<Rightarrow> exn + 't"
  runs_test :: "real list \<Rightarrow> exn + 't"
  corrcoef :: "real list \<Rightarrow> exn + 't"

text \<open>
  A dictionary display evaluates its values in order; the first call that raises ends the
  evaluation. The result is the dictionary as a list of its items.
\<close>

definition normality_tests :: "('t, 'z) stats_library_scheme \<Rightarrow> real list \<Rightarrow> exn + (string \<times> 't) list" where
  "normality_tests lib returns =
     (case shapiro lib returns of
        Inl e \<Rightarrow> Inl e
      | Inr sw \<Rightarrow>
          (case jarque_bera lib returns of
             Inl e \<Rightarrow> Inl e
           | Inr jb \<Rightarrow>
               (case anderson lib returns of
                  Inl e \<Rightarrow> Inl e
                | Inr ad \<Rightarrow>
                    Inr [(''shapiro_wilk'', sw), (''jarque_bera'', jb), (''anderson'', ad)])))"

definition independence_tests :: "('t, 'z) stats_library_scheme \<Rightarrow> real list \<Rightarrow> exn + (string \<times> 't) list" where
  "independence_tests lib returns =
     (case acorr_ljungbox lib returns of
        Inl e \<Rightarrow> Inl e
      | Inr lb \<Rightarrow>
          (case runs_test lib returns of
             Inl e \<Rightarrow> Inl e
           | Inr rt \<Rightarrow> Inr [(''ljung_box'', lb), (''runs_test'', rt)]))"

definition correlation_analysis :: "('t, 'z) stats_library_scheme \<Rightarrow> real list \<Rightarrow> exn + 't" where
  "correlation_analysis lib returns = corrcoef lib returns"

text \<open>
  Two instances of the library call \<^verbatim>\<open>scipy.stats.shapiro\<close> on a sample that is too
  small, after the two behaviours scipy has had: older releases raise \<^verbatim>\<open>ValueError\<close>
  for fewer than three observations; recent releases return a result whose statistic is
  NaN, with a warning. On larger samples both behave as the test \<open>w\<close> they wrap.
  \<open>returning r\<close> is a library call that returns \<open>r\<close> on every sample.
\<close>

definition shapiro_raising :: "(real list \<Rightarrow> exn + 't) \<Rightarrow> real list \<Rightarrow> exn + 't" where
  "shapiro_raising w xs = (if length xs < 3 then Inl ''ValueError'' else w xs)"

definition shapiro_warning :: "'t \<Rightarrow> (real list \<Rightarrow> exn + 't) \<Rightarrow> real list \<Rightarrow> exn + 't" where
  "shapiro_warning nan_result w xs = (if length xs < 3 then Inr nan_result else w xs)"

definition returning :: "'t \<Rightarrow> real list \<Rightarrow> exn + 't" where
  "returning r xs = Inr r"

section \<open>TransactionCostModeler\<close>

text \<open>
  The trade ledger is a DataFrame: one row per trade, with the columns \<^verbatim>\<open>volume\<close> and
  \<^verbatim>\<open>spread\<close>. Selecting a column gives a Series, and arithmetic on Series is
  element-wise.
\<close>

record trade =
  volume :: real
  spread :: real

record broker_config =
  commission_rate :: real
  slippage_rate :: real
  market_impact_rate :: real

definition calculate_spread_cost :: "'z numpy_scheme \<Rightarrow> trade list \<Rightarrow> npfloat list" where
  "calculate_spread_cost np trades =
     map (\<lambda>(s, v). np_mul np (Fin s) (Fin v)) (zip (map spread trades) (map volume trades))"

definition calculate_commission :: "'z numpy_scheme \<Rightarrow> broker_config \<Rightarrow> trade list \<Rightarrow> npfloat list" where
  "calculate_commission np cfg trades =
     map (\<lambda>v. np_mul np (Fin v) (Fin (commission_rate cfg))) (map volume trades)"

definition estimate_slippage :: "'z numpy_scheme \<Rightarrow> broker_config \<Rightarrow> trade list \<Rightarrow> npfloat list" where
  "estimate_slippage np cfg trades =
     map (\<lambda>v. np_mul np (Fin v) (Fin (slippage_rate cfg))) (map volume trades)"

definition calculate_market_impact :: "'z numpy_scheme \<Rightarrow> broker_config \<Rightarrow> trade list \<Rightarrow> npfloat list" where
  "calculate_market_impact np cfg trades =
     map (\<lambda>v. np_mul np (Fin v) (Fin (market_impact_rate cfg))) (map volume trades)"

text \<open>
  The builtin \<^verbatim>\<open>sum\<close> over the four Series of the dictionary starts from the integer 0
  and adds them one after the other: \<open>0 + s\<close> adds 0 to every entry, and the sum of two
  Series of the same ledger adds them entry by entry. The result is a Series with one
  entry per trade.
\<close>

definition series_add :: "'z numpy_scheme \<Rightarrow> npfloat list \<Rightarrow> npfloat list \<Rightarrow> npfloat list" where
  "series_add np xs ys = map (\<lambda>(x, y). np_add np x y) (zip xs ys)"

fun sum_series_from :: "'z numpy_scheme \<Rightarrow> npfloat list \<Rightarrow> npfloat list list \<Rightarrow> npfloat list" where
  "sum_series_from np acc [] = acc"
| "sum_series_from np acc (s # ss) = sum_series_from np (series_add np acc s) ss"

definition sum_series :: "'z numpy_scheme \<Rightarrow> npfloat list list \<Rightarrow> npfloat list" where
  "sum_series np ss =
     (case ss of [] \<Rightarrow> [] | s # ss' \<Rightarrow> sum_series_from np (map (np_add np (Fin 0)) s) ss')"

record cost_report =
  detailed_costs :: "(string \<times> npfloat list) list"
  total_cost_percentage :: "npfloat list"

definition estimate_transaction_costs ::
  "'z numpy_scheme \<Rightarrow> broker_config \<Rightarrow> trade list \<Rightarrow> cost_report" where
  "estimate_transaction_costs np cfg trades =
     (let costs = [(''spread_cost'', calculate_spread_cost np trades),
                   (''commission'', calculate_commission np cfg trades),
                   (''slippage'', estimate_slippage np cfg trades),
                   (''market_impact'', calculate_market_impact np cfg trades)];
          total_trade_volume = np_sum np (map volume trades);
          total_cost = sum_series np (map snd costs)
      in \<lparr>detailed_costs = costs,
          total_cost_percentage = map (\<lambda>c. np_div np c total_trade_volume) total_cost\<rparr>)"

section \<open>The orchestrator\<close>

text \<open>
  The strategy is an external object with a state of its own: \<open>train\<close> and
  \<open>strategy_simulate\<close> may change it or raise, and its attributes \<^verbatim>\<open>returns\<close> and
  \<^verbatim>\<open>trades\<close> are read from the state.
\<close>

record ('d, 's, 'p) strategy =
  train :: "'d list \<Rightarrow> 's \<Rightarrow> exn + 's"
  strategy_simulate :: "'d list \<Rightarrow> 's \<Rightarrow> exn + ('p \<times> 's)"
  strategy_returns :: "'s \<Rightarrow> real list"
  strategy_trades :: "'s \<Rightarrow> trade list"

record config =
  cfg_window_size :: int
  cfg_forecast_horizon :: int
  cfg_benchmark_returns :: "real list"
  cfg_broker_config :: broker_config

text \<open>
  A configuration may hold any further keys: a framework is defined for every extension
  of the configuration record.
\<close>

record ('d, 's, 'p, 'z) framework =
  fw_strategy :: "('d, 's, 'p) strategy"
  fw_data :: "'d list"
  fw_config :: "'z config_scheme"

record ('p, 't) backtest_report =
  walk_forward_results :: "'p list"
  monte_carlo_simulation :: simulation_result
  risk_analysis :: risk_report
  statistical_validation :: "(string \<times> 't) list \<times> (string \<times> 't) list \<times> 't"
  transaction_costs :: cost_report

fun walk_forward_loop ::
  "('d, 's, 'p) strategy \<Rightarrow> ('d list \<times> 'd list) list \<Rightarrow> 'p list \<Rightarrow> 's \<Rightarrow> exn + ('p list \<times> 's)" where
  "walk_forward_loop strat [] results st = Inr (results, st)"
| "walk_forward_loop strat ((train_data, test_data) # rest) results st =
     (case train strat train_data st of
        Inl e \<Rightarrow> Inl e
      | Inr st1 \<Rightarrow>
          (case strategy_simulate strat test_data st1 of
             Inl e \<Rightarrow> Inl e
           | Inr (period_results, st2) \<Rightarrow>
               walk_forward_loop strat rest (results @ [period_results]) st2))"

definition walk_forward_stage :: "('d, 's, 'p, 'z) framework \<Rightarrow> 's \<Rightarrow> exn + ('p list \<times> 's)" where
  "walk_forward_stage self st =
     (let walk_forward_analysis =
            WalkForwardAnalysis_init (fw_data self)
              (cfg_window_size (fw_config self)) (cfg_forecast_horizon (fw_config self))
      in case generate_walk_forward_splits walk_forward_analysis of
           Inl e \<Rightarrow> Inl e
         | Inr splits \<Rightarrow> walk_forward_loop (fw_strategy self) splits [] st)"

definition monte_carlo_stage ::
  "'y numpy_scheme \<Rightarrow> (nat \<Rightarrow> nat \<Rightarrow> real) \<Rightarrow> ('d, 's, 'p, 'z) framework \<Rightarrow> 's \<Rightarrow>
     exn + simulation_result" where
  "monte_carlo_stage np rng self st =
     simulate np rng (strategy_returns (fw_strategy self) st) None None"

definition risk_stage :: "'y numpy_scheme \<Rightarrow> ('d, 's, 'p, 'z) framework \<Rightarrow> 's \<Rightarrow> exn + risk_report" where
  "risk_stage np self st =
     decompose_risk np \<lparr>rd_returns = strategy_returns (fw_strategy self) st,
                     benchmark_returns = cfg_benchmark_returns (fw_config self)\<rparr>"

definition validation_stage ::
  "('t, 'x) stats_library_scheme \<Rightarrow> ('d, 's, 'p, 'z) framework \<Rightarrow> 's \<Rightarrow>
     exn + ((string \<times> 't) list \<times> (string \<times> 't) list \<times> 't)" where
  "validation_stage lib self st =
     (let returns = strategy_returns (fw_strategy self) st
      in case normality_tests lib returns of
           Inl e \<Rightarrow> Inl e
         | Inr normality \<Rightarrow>
             (case independence_tests lib returns of
                Inl e \<Rightarrow> Inl e
              | Inr independence \<Rightarrow>
                  (case correlation_analysis lib returns of
                     Inl e \<Rightarrow> Inl e
                   | Inr correlation \<Rightarrow> Inr (normality, independence, correlation))))"

definition cost_stage :: "'y numpy_scheme \<Rightarrow> ('d, 's, 'p, 'z) framework \<Rightarrow> 's \<Rightarrow> cost_report" where
  "cost_stage np self st =
     estimate_transaction_costs np (cfg_broker_config (fw_config self))
       (strategy_trades (fw_strategy self) st)"

text \<open>
  The run returns the report together with the state in which it leaves the strategy; an
  exception of any stage ends the run.
\<close>

definition run_comprehensive_backtest ::
  "'y numpy_scheme \<Rightarrow> ('t, 'x) stats_library_scheme \<Rightarrow> (nat \<Rightarrow> nat \<Rightarrow> real) \<Rightarrow>
     ('d, 's, 'p, 'z) framework \<Rightarrow> 's \<Rightarrow> exn + (('p, 't) backtest_report \<times> 's)" where
  "run_comprehensive_backtest np lib rng self st =
     (case walk_forward_stage self st of
        Inl e \<Rightarrow> Inl e
      | Inr (wf_results, st') \<Rightarrow>
          (case monte_carlo_stage np rng self st' of
             Inl e \<Rightarrow> Inl e
           | Inr mc_results \<Rightarrow>
               (case risk_stage np self st' of
                  Inl e \<Rightarrow> Inl e
                | Inr risk \<Rightarrow>
                    (case validation_stage lib self st' of
                       Inl e \<Rightarrow> Inl e
                     | Inr statistical_tests \<Rightarrow>
                         Inr (\<lparr>walk_forward_results = wf_results,
                               monte_carlo_simulation = mc_results,
                               risk_analysis = risk,
                               statistical_validation = statistical_tests,
                               transaction_costs = cost_stage np self st'\<rparr>, st')))))"


text \<open>
  A strategy without a state of its own: training does nothing, every test window gives
  the result 0, and the return series and the trade ledger are fixed.
\<close>

definition fixed_strategy :: "real list \<Rightarrow> trade list \<Rightarrow> ('d, unit, nat) strategy" where
  "fixed_strategy rs ts =
     \<lparr>train = (\<lambda>window st. Inr st),
      strategy_simulate = (\<lambda>window st. Inr (0, st)),
      strategy_returns = (\<lambda>st. rs),
      strategy_trades = (\<lambda>st. ts)\<rparr>"

section \<open>Properties of the walk-forward splitter\<close>

lemma ceil_div_pos:
  fixes d step :: int
  assumes "0 < step"
  shows "(d - 1) div step + 1 = - ((- d) div step)"
proof -
  define q where "q = (d - 1) div step"
  define r where "r = (d - 1) mod step"
  have dq: "d - 1 = step * q + r" by (simp add: q_def r_def)
  have r: "0 \<le> r" "r < step" using assms by (simp_all add: r_def)
  have "- d = step * (- (q + 1)) + (step - 1 - r)"
    using dq by (simp add: algebra_simps)
  moreover have "0 \<le> step - 1 - r" "step - 1 - r < step" using r by simp_all
  ultimately have "(- d) div step = - (q + 1)"
    by (rule int_div_pos_eq)
  then show ?thesis by (simp add: q_def)
qed

lemma range_len_pos:
  assumes "0 < step"
  shows "int (range_len start stop step) =
         (if start < stop then \<lceil>(of_int (stop - start) :: real) / of_int step\<rceil> else 0)"
proof (cases "start < stop")
  case False
  then show ?thesis using assms by (simp add: range_len_def)
next
  case True
  have "0 \<le> (stop - start - 1) div step"
    using assms True by (simp add: pos_imp_zdiv_nonneg_iff)
  moreover have "(stop - start - 1) div step + 1 = - ((- (stop - start)) div step)"
    using assms by (rule ceil_div_pos)
  moreover have "\<lceil>(of_int (stop - start) :: real) / of_int step\<rceil> = - ((- (stop - start)) div step)"
    by (rule ceiling_divide_eq_div)
  moreover have "range_len start stop step = nat ((stop - start - 1) div step + 1)"
    using True assms by (simp add: range_len_def)
  ultimately show ?thesis using True by simp
qed

lemma range_len_nth_bound:
  assumes "0 < step" "k < range_len start stop step"
  shows "start + int k * step < stop"
proof -
  have lt: "start < stop" using assms by (auto simp: range_len_def split: if_splits)
  then have "int k < (stop - start - 1) div step + 1"
    using assms by (simp add: range_len_def)
  then have "int k \<le> (stop - start - 1) div step" by simp
  then have "int k * step \<le> ((stop - start - 1) div step) * step"
    using assms(1) by (simp add: mult_right_mono)
  also have "\<dots> = (stop - start - 1) - (stop - start - 1) mod step"
    by (simp add: minus_mod_eq_mult_div mult.commute)
  also have "\<dots> \<le> stop - start - 1"
  proof -
    have "0 \<le> (stop - start - 1) mod step"
      using assms(1) by (rule pos_mod_sign)
    then show ?thesis by linarith
  qed
  finally show ?thesis by simp
qed

lemma iloc_nonneg:
  assumes "0 \<le> a" "a \<le> b"
  shows "iloc xs a b = take (nat (b - a)) (drop (nat a) xs)"
proof -
  have "take (min (nat b) (length xs) - min (nat a) (length xs)) (drop (min (nat a) (length xs)) xs)
        = take (nat (b - a)) (drop (nat a) xs)"
  proof (cases "nat a \<le> length xs")
    case True
    then have "min (nat a) (length xs) = nat a" by simp
    moreover have "take (min (nat b) (length xs) - nat a) (drop (nat a) xs)
                   = take (nat (b - a)) (drop (nat a) xs)"
    proof (cases "nat b \<le> length xs")
      case True
      then show ?thesis using assms by (simp add: nat_diff_distrib)
    next
      case False
      then have "length (drop (nat a) xs) \<le> nat (b - a)"
        using assms by (simp add: nat_diff_distrib)
      then show ?thesis using False by simp
    qed
    ultimately show ?thesis by simp
  next
    case False
    then show ?thesis by simp
  qed
  then show ?thesis using assms by (simp add: iloc_def slice_index_def Let_def)
qed

text \<open>
  Claim C1, as amended. For a series of length N, a window size W of at least 1 and a
  forecast horizon H of at least 1, the generator raises nothing and yields
  \<open>\<lceil>(N - W) / H\<rceil>\<close> pairs when \<open>W < N\<close>, and no pair when \<open>N \<le> W\<close>: the loop runs
  for every start below \<open>N - W\<close>, also when fewer than H observations are left for the
  test slice.
\<close>

theorem walk_forward_pair_count:
  assumes "1 \<le> W" and "1 \<le> H"
  shows "\<exists>ps. generate_walk_forward_splits (WalkForwardAnalysis_init d W H) = Inr ps \<and>
           int (length ps) =
             (if W < int (length d) then \<lceil>(of_int (int (length d) - W) :: real) / of_int H\<rceil> else 0)"
proof -
  have H: "0 < H" using assms by simp
  show ?thesis
    using H range_len_pos [OF H, of 0 "int (length d) - W"]
    by (simp add: generate_walk_forward_splits_def WalkForwardAnalysis_init_def py_range_def)
qed

theorem walk_forward_pair_count_witness:
  "\<exists>ps. generate_walk_forward_splits (WalkForwardAnalysis_init [10, 20, 30, 40, 50 :: int] 3 3) = Inr ps \<and>
     int (length ps) = 1"
proof -
  have "\<lceil>(of_int (int (length [10, 20, 30, 40, 50 :: int]) - 3) :: real) / of_int 3\<rceil> = 1"
    by (simp add: ceiling_eq_iff)
  then show ?thesis
    using walk_forward_pair_count [of 3 3 "[10, 20, 30, 40, 50 :: int]"] by simp
qed

text \<open>
  The claim as the specification states it fails on a series of five observations with
  \<open>W = 3\<close> and \<open>H = 3\<close>: here \<open>W + H > N\<close> and \<open>\<lfloor>(N - W) / H\<rfloor> = 0\<close>, yet one pair is
  yielded, whose test slice holds the two observations that are left.
\<close>

theorem walk_forward_pair_count_counterexample:
  "(3::int) + 3 > int (length [10, 20, 30, 40, 50 :: int]) \<and>
   generate_walk_forward_splits (WalkForwardAnalysis_init [10, 20, 30, 40, 50 :: int] 3 3)
     = Inr [([10, 20, 30], [40, 50])] \<and>
   int (length [([10, 20, 30 :: int], [40, 50 :: int])]) \<noteq> 0 \<and>
   int (length [([10, 20, 30 :: int], [40, 50 :: int])])
     \<noteq> \<lfloor>(of_int (int (length [10, 20, 30, 40, 50 :: int]) - 3) :: real) / of_int 3\<rfloor>"
  by (simp add: generate_walk_forward_splits_def WalkForwardAnalysis_init_def py_range_def
      range_len_def split_pair_def split_bounds_def iloc_def slice_index_def floor_eq_iff)

lemma generate_nth:
  assumes "0 < H"
    and "generate_walk_forward_splits (WalkForwardAnalysis_init d W H) = Inr ps"
    and "i < length ps"
  shows "ps ! i = split_pair (WalkForwardAnalysis_init d W H) (int i * H)"
    and "int i * H + W < int (length d)"
proof -
  let ?n = "range_len 0 (int (length d) - W) H"
  have ps: "ps = map (split_pair (WalkForwardAnalysis_init d W H)) (map (\<lambda>k. 0 + int k * H) [0..<?n])"
    using assms(1,2)
    by (simp add: generate_walk_forward_splits_def WalkForwardAnalysis_init_def py_range_def)
  then have i: "i < ?n" using assms(3) by simp
  then show "ps ! i = split_pair (WalkForwardAnalysis_init d W H) (int i * H)"
    using ps by simp
  show "int i * H + W < int (length d)"
    using range_len_nth_bound [OF assms(1) i] by simp
qed

text \<open>
  Claim C2, as amended. For W and H of at least 1, the i-th pair comes from the bounds
  \<open>(i * H, i * H + W, i * H + W, i * H + W + H)\<close>: its train slice is the W observations
  from index \<open>i * H\<close> on, and its test slice starts where the train slice ends and holds
  the observations up to index \<open>i * H + W + H\<close> or up to the end of the series, whichever
  comes first. The test slice is never empty and never longer than H, and it has H
  elements exactly when \<open>i * H + W + H \<le> N\<close>: a partial trailing window is yielded
  shortened, neither dropped nor padded.
\<close>

theorem walk_forward_pair_ranges:
  assumes "1 \<le> W" and "1 \<le> H"
    and "generate_walk_forward_splits (WalkForwardAnalysis_init d W H) = Inr ps"
    and "i < length ps"
  shows "split_bounds (WalkForwardAnalysis_init d W H) (int i * H)
           = (int i * H, int i * H + W, int i * H + W, int i * H + W + H) \<and>
         fst (ps ! i) = take (nat W) (drop (nat (int i * H)) d) \<and>
         length (fst (ps ! i)) = nat W \<and>
         snd (ps ! i) = take (nat H) (drop (nat (int i * H + W)) d) \<and>
         length (snd (ps ! i)) = min (nat H) (length d - nat (int i * H + W)) \<and>
         1 \<le> length (snd (ps ! i)) \<and>
         (length (snd (ps ! i)) = nat H \<longleftrightarrow> int i * H + W + H \<le> int (length d))"
proof -
  have H: "0 < H" using assms(2) by simp
  have nth: "ps ! i = split_pair (WalkForwardAnalysis_init d W H) (int i * H)"
    and bound: "int i * H + W < int (length d)"
    using generate_nth [OF H assms(3,4)] by simp_all
  have s: "0 \<le> int i * H" using H by simp
  have b: "split_bounds (WalkForwardAnalysis_init d W H) (int i * H)
           = (int i * H, int i * H + W, int i * H + W, int i * H + W + H)"
    by (simp add: split_bounds_def WalkForwardAnalysis_init_def Let_def)
  have tr: "fst (ps ! i) = take (nat W) (drop (nat (int i * H)) d)"
    using nth b iloc_nonneg [of "int i * H" "int i * H + W" d] s assms(1)
    by (simp add: split_pair_def WalkForwardAnalysis_init_def)
  have te: "snd (ps ! i) = take (nat H) (drop (nat (int i * H + W)) d)"
    using nth b iloc_nonneg [of "int i * H + W" "int i * H + W + H" d] s assms(1,2)
    by (simp add: split_pair_def WalkForwardAnalysis_init_def)
  have ltr: "length (fst (ps ! i)) = nat W"
    using tr bound s assms(1) by (simp add: nat_add_distrib)
  have lte: "length (snd (ps ! i)) = min (nat H) (length d - nat (int i * H + W))"
    using te by simp
  define k where "k = nat (int i * H + W)"
  have k: "int k = int i * H + W" using s assms(1) by (simp add: k_def)
  have klt: "k < length d" using bound k by linarith
  have lte': "length (snd (ps ! i)) = min (nat H) (length d - k)"
    using lte by (simp add: k_def)
  have hpos: "1 \<le> nat H" using assms(2) by simp
  have pos: "1 \<le> length (snd (ps ! i))"
    using lte' klt hpos by simp
  have "length (snd (ps ! i)) = nat H \<longleftrightarrow> nat H \<le> length d - k"
    using lte' by (simp add: min_def)
  also have "\<dots> \<longleftrightarrow> int (nat H) + int k \<le> int (length d)"
    using klt by linarith
  also have "\<dots> \<longleftrightarrow> int i * H + W + H \<le> int (length d)"
    using k assms(2) by (simp add: add.commute)
  finally have full: "length (snd (ps ! i)) = nat H \<longleftrightarrow> int i * H + W + H \<le> int (length d)" .
  show ?thesis using b tr te ltr lte pos full by blast
qed

theorem walk_forward_pair_ranges_witness:
  "fst ([([1, 2, 3 :: int], [4, 5, 6 :: int]), ([4, 5, 6], [7])] ! 1) = [4, 5, 6] \<and>
   snd ([([1, 2, 3 :: int], [4, 5, 6 :: int]), ([4, 5, 6], [7])] ! 1) = [7] \<and>
   split_bounds (WalkForwardAnalysis_init [1, 2, 3, 4, 5, 6, 7 :: int] 3 3) 3 = (3, 6, 6, 9)"
proof -
  have g: "generate_walk_forward_splits (WalkForwardAnalysis_init [1, 2, 3, 4, 5, 6, 7 :: int] 3 3)
           = Inr [([1, 2, 3], [4, 5, 6]), ([4, 5, 6], [7])]"
    by (simp add: generate_walk_forward_splits_def WalkForwardAnalysis_init_def py_range_def
        range_len_def split_pair_def split_bounds_def iloc_def slice_index_def
        Let_def upt_conv_Cons)
  have i: "1 < length [([1, 2, 3 :: int], [4, 5, 6 :: int]), ([4, 5, 6], [7])]" by simp
  have w: "(1::int) \<le> 3" by simp
  show ?thesis
    using walk_forward_pair_ranges [OF w w g i] by simp
qed

text \<open>
  The claim as stated fails on a series of seven observations with \<open>W = 3\<close> and \<open>H = 3\<close>:
  the second pair has the test bounds 6 and 9, past the end of the series, and its test
  slice has one element instead of three.
\<close>

theorem walk_forward_pair_ranges_counterexample:
  "generate_walk_forward_splits (WalkForwardAnalysis_init [1, 2, 3, 4, 5, 6, 7 :: int] 3 3)
     = Inr [([1, 2, 3], [4, 5, 6]), ([4, 5, 6], [7])] \<and>
   split_bounds (WalkForwardAnalysis_init [1, 2, 3, 4, 5, 6, 7 :: int] 3 3) (1 * 3) = (3, 6, 6, 9) \<and>
   (9::int) > int (length [1, 2, 3, 4, 5, 6, 7 :: int]) \<and>
   length (snd ([([1, 2, 3 :: int], [4, 5, 6 :: int]), ([4, 5, 6], [7])] ! 1)) \<noteq> 3"
  by (simp add: generate_walk_forward_splits_def WalkForwardAnalysis_init_def py_range_def
      range_len_def split_pair_def split_bounds_def iloc_def slice_index_def
        Let_def upt_conv_Cons)

text \<open>
  Claim C7, as amended. The splitter validates nothing. The constructor stores any window
  size and forecast horizon, and running the generator raises exactly when the forecast
  horizon is 0: then \<^verbatim>\<open>range\<close> raises \<^verbatim>\<open>ValueError\<close> when the loop is entered, before
  any pair. Every other value, positive or not, is accepted without an error.
\<close>

theorem walk_forward_raises_iff:
  "generate_walk_forward_splits (WalkForwardAnalysis_init d W H) = Inl e \<longleftrightarrow> H = 0 \<and> e = ''ValueError''"
  by (auto simp add: generate_walk_forward_splits_def WalkForwardAnalysis_init_def py_range_def)

theorem walk_forward_raises_iff_witness:
  "generate_walk_forward_splits (WalkForwardAnalysis_init [1, 2 :: int] 1 0) = Inl ''ValueError'' \<and>
   generate_walk_forward_splits (WalkForwardAnalysis_init [1, 2 :: int] (- 1) (- 1)) \<noteq> Inl ''ValueError''"
  using walk_forward_raises_iff [of "[1, 2 :: int]" 1 0 "''ValueError''"]
    walk_forward_raises_iff [of "[1, 2 :: int]" "- 1" "- 1" "''ValueError''"]
  by simp

text \<open>
  The claim as stated fails for a window size of 0: no error is raised, and two pairs
  with an empty train slice are yielded.
\<close>

theorem walk_forward_no_validation_counterexample:
  "(0::int) \<le> 0 \<and>
   generate_walk_forward_splits (WalkForwardAnalysis_init [1, 2 :: int] 0 1) = Inr [([], [1]), ([], [2])]"
  by (simp add: generate_walk_forward_splits_def WalkForwardAnalysis_init_def py_range_def
      range_len_def split_pair_def split_bounds_def iloc_def slice_index_def
        Let_def upt_conv_Cons)

section \<open>The exact library\<close>

lemma exact_numpy_simps:
  "fl (exact_numpy r) = r"
  "np_sum (exact_numpy r) xs = r (sum_list xs)"
  "np_mean (exact_numpy r) xs = (if xs = [] then NaN else r (mean xs))"
  "np_var (exact_numpy r) xs = (if xs = [] then NaN else r (variance xs))"
  "np_std (exact_numpy r) xs = (if xs = [] then NaN else r (sqrt (variance xs)))"
  "np_cov_value (exact_numpy r) xs ys = (if length xs \<le> 1 then NaN else r (covariance xs ys))"
  by (simp_all add: exact_numpy_def)

section \<open>Properties of the cost model\<close>

lemma total_cost_percentage_length:
  "length (total_cost_percentage (estimate_transaction_costs np cfg trades)) = length trades"
  by (simp add: estimate_transaction_costs_def sum_series_def series_add_def
      calculate_spread_cost_def calculate_commission_def estimate_slippage_def
      calculate_market_impact_def Let_def)

text \<open>
  Claim C3. On the ledger of the specification, with the two rows
  \<open>(volume = 100, spread = 0.01)\<close> and \<open>(volume = 200, spread = 0.02)\<close> and the rates
  0.001, 0.0005 and 0.0001, the code does not return the single number \<open>5.48 / 300\<close>:
  \<^verbatim>\<open>sum(costs.values())\<close> adds the four Series entry by entry and never sums over the
  rows, so \<^verbatim>\<open>total_cost_percentage\<close> is a Series with one entry per trade, here
  \<open>1.16 / 300\<close> and \<open>4.32 / 300\<close> in exact arithmetic.
\<close>

theorem total_cost_percentage_per_trade:
  "total_cost_percentage
     (estimate_transaction_costs (exact_numpy Fin)
        \<lparr>commission_rate = 0.001, slippage_rate = 0.0005, market_impact_rate = 0.0001\<rparr>
        [\<lparr>volume = 100, spread = 0.01\<rparr>, \<lparr>volume = 200, spread = 0.02\<rparr>])
   = [Fin (1.16 / 300), Fin (4.32 / 300)]"
  by (simp add: estimate_transaction_costs_def sum_series_def series_add_def
      calculate_spread_cost_def calculate_commission_def estimate_slippage_def
      calculate_market_impact_def Let_def exact_numpy_simps)

section \<open>Properties of the risk decomposition\<close>

text \<open>
  Claim C4. With the series \<open>[1, 2]\<close> as both returns and benchmark, where every
  intermediate result is a \<^verbatim>\<open>float64\<close> and nothing is rounded, the code computes a beta
  of 2 and the specific risk \<open>[-1, -2]\<close>, not 1 and zeros: the covariance is the sample
  estimate (divided by N - 1) and the variance the population estimate (divided by N), so
  for identical series their quotient is \<open>N / (N - 1)\<close>.
\<close>

theorem beta_of_identical_series:
  "calculate_beta (exact_numpy Fin) \<lparr>rd_returns = [1, 2], benchmark_returns = [1, 2]\<rparr>
     = Inr (Fin 2) \<and>
   calculate_specific_risk (exact_numpy Fin) \<lparr>rd_returns = [1, 2], benchmark_returns = [1, 2]\<rparr>
     = Inr [Fin (- 1), Fin (- 2)]"
  by (simp add: calculate_specific_risk_def calculate_beta_def np_cov01_def covariance_def
      variance_def mean_def np_sub_def Let_def power2_eq_square exact_numpy_simps)

lemma zip_same_map: "map (\<lambda>(x, y). f x y) (zip xs xs) = map (\<lambda>x. f x x) xs"
  by (induction xs) simp_all

lemma calculate_beta_identical:
  assumes "2 \<le> length xs" and "variance xs \<noteq> 0"
  shows "calculate_beta (exact_numpy Fin) \<lparr>rd_returns = xs, benchmark_returns = xs\<rparr>
         = Inr (Fin (real (length xs) / (real (length xs) - 1)))"
proof -
  define S where "S = sum_list (map (\<lambda>x. (x - mean xs)\<^sup>2) xs)"
  have n: "real (length xs) \<noteq> 0" "real (length xs) - 1 \<noteq> 0" using assms(1) by auto
  have v: "variance xs = S / real (length xs)" by (simp add: variance_def S_def)
  have S: "S \<noteq> 0" using assms(2) v by auto
  have c: "covariance xs xs = S / (real (length xs) - 1)"
    by (simp add: covariance_def S_def zip_same_map power2_eq_square)
  have "covariance xs xs / variance xs = real (length xs) / (real (length xs) - 1)"
    using n S by (simp add: c v field_simps)
  moreover have "xs \<noteq> []" "\<not> length xs \<le> 1" using assms(1) by auto
  ultimately show ?thesis
    using assms(2) by (simp add: calculate_beta_def np_cov01_def Let_def exact_numpy_simps)
qed

lemma np_div_by_zero: "np_div np c (Fin 0) = NaN \<or> np_div np c (Fin 0) = PosInf \<or> np_div np c (Fin 0) = NegInf"
  by (cases c) (simp_all add: inf_of_sign_def)

text \<open>
  Claim C5, as amended. For every arithmetic, when both series have the same length and
  the variance that \<^verbatim>\<open>np.var\<close> returns for the benchmark is exactly zero,
  \<open>calculate_beta\<close> raises nothing: it divides by the zero variance and returns NaN or an
  infinity, never a finite number.
\<close>

theorem beta_zero_variance:
  assumes "length rs = length bs" and "np_var np bs = Fin 0"
  shows "\<exists>v. calculate_beta np \<lparr>rd_returns = rs, benchmark_returns = bs\<rparr> = Inr v \<and>
             (v = NaN \<or> v = PosInf \<or> v = NegInf)"
  using assms np_div_by_zero [of np "np_cov_value np rs bs"]
  by (simp add: calculate_beta_def np_cov01_def Let_def)

theorem beta_zero_variance_witness:
  "\<exists>v. calculate_beta (exact_numpy Fin) \<lparr>rd_returns = [1, 2], benchmark_returns = [3, 3]\<rparr> = Inr v \<and>
       (v = NaN \<or> v = PosInf \<or> v = NegInf)"
proof -
  have "np_var (exact_numpy Fin) [3, 3] = Fin 0"
    by (simp add: exact_numpy_simps variance_def mean_def)
  then show ?thesis
    using beta_zero_variance [of "[1, 2]" "[3, 3]" "exact_numpy Fin"] by simp
qed

text \<open>
  The claim as stated fails for the returns \<open>[1, 2]\<close> and the constant benchmark
  \<open>[3, 3]\<close>, where nothing is rounded: the call returns NaN and raises no exception.
\<close>

theorem beta_zero_variance_counterexample:
  "length [1, 2 :: real] = length [3, 3 :: real] \<and> np_var (exact_numpy Fin) [3, 3] = Fin 0 \<and>
   calculate_beta (exact_numpy Fin) \<lparr>rd_returns = [1, 2], benchmark_returns = [3, 3]\<rparr> = Inr NaN \<and>
   calculate_beta (exact_numpy Fin) \<lparr>rd_returns = [1, 2], benchmark_returns = [3, 3]\<rparr>
     \<noteq> Inl ''DegenerateInputError''"
  by (simp add: calculate_beta_def np_cov01_def covariance_def
      variance_def mean_def Let_def inf_of_sign_def exact_numpy_simps)

section \<open>Properties of the statistical validator\<close>

text \<open>
  Claim C6, as amended. The validator checks no sample size and raises no error of its
  own: \<open>normality_tests\<close> fails exactly when one of the three library calls fails, with
  the exception of the first call that does, \<^verbatim>\<open>shapiro\<close> first. On a sample of length 2
  it therefore fails with the \<^verbatim>\<open>ValueError\<close> of a \<^verbatim>\<open>shapiro\<close> that raises below
  three observations.
\<close>

theorem normality_tests_propagates:
  "(normality_tests lib xs = Inl e \<longleftrightarrow>
      shapiro lib xs = Inl e \<or>
      (\<exists>sw. shapiro lib xs = Inr sw \<and>
         (jarque_bera lib xs = Inl e \<or>
          (\<exists>jb. jarque_bera lib xs = Inr jb \<and> anderson lib xs = Inl e)))) \<and>
   (length xs = 2 \<longrightarrow>
      normality_tests (lib\<lparr>shapiro := shapiro_raising w\<rparr>) xs = Inl ''ValueError'')"
  by (auto simp: normality_tests_def shapiro_raising_def split: sum.splits)

theorem normality_tests_propagates_witness:
  "normality_tests
     \<lparr>shapiro = shapiro_raising (returning (1::real)), jarque_bera = returning 2,
      anderson = returning 3, acorr_ljungbox = returning 4, runs_test = returning 5,
      corrcoef = returning 6\<rparr> [1, 2] = Inl ''ValueError''"
  using normality_tests_propagates
    [of "\<lparr>shapiro = returning (1::real), jarque_bera = returning 2,
      anderson = returning 3, acorr_ljungbox = returning 4, runs_test = returning 5,
      corrcoef = returning 6\<rparr>" "[1, 2]" "''ValueError''" "returning (1::real)"]
  by simp

text \<open>
  The claim as stated fails on the sample \<open>[1, 2]\<close>: with a \<^verbatim>\<open>shapiro\<close> that raises, the
  error is not \<^verbatim>\<open>InsufficientData\<close>; with a \<^verbatim>\<open>shapiro\<close> that warns, the validator returns
  the three results, where 0 stands for the result with the NaN statistic.
\<close>

theorem normality_tests_counterexample:
  "length [1, 2 :: real] = 2 \<and>
   normality_tests
     \<lparr>shapiro = shapiro_raising (returning (1::real)), jarque_bera = returning 2,
      anderson = returning 3, acorr_ljungbox = returning 4, runs_test = returning 5,
      corrcoef = returning 6\<rparr> [1, 2] \<noteq> Inl ''InsufficientData'' \<and>
   normality_tests
     \<lparr>shapiro = shapiro_warning 0 (returning (1::real)), jarque_bera = returning 2,
      anderson = returning 3, acorr_ljungbox = returning 4, runs_test = returning 5,
      corrcoef = returning 6\<rparr> [1, 2]
     = Inr [(''shapiro_wilk'', 0), (''jarque_bera'', 2), (''anderson'', 3)]"
  by (simp add: normality_tests_def shapiro_raising_def shapiro_warning_def returning_def)

section \<open>Properties of the Monte Carlo simulation\<close>

lemma collect_map_Inr: "collect (map (\<lambda>x. Inr (f x)) xs) = Inr (map f xs)"
  by (induction xs) simp_all

lemma column_nonempty: "rows \<noteq> [] \<Longrightarrow> column rows t \<noteq> []"
  by (simp add: column_def)

lemma np_percentile_axis0_rows:
  assumes "rows \<noteq> []"
  shows "np_percentile_axis0 np ncols rows qs
         = Inr (map (\<lambda>q. map (\<lambda>t. percentile_value np (column rows t) q) [0..<ncols]) qs)"
proof -
  have "collect (map (\<lambda>t. np_percentile np (column rows t) q) [0..<ncols])
        = Inr (map (\<lambda>t. percentile_value np (column rows t) q) [0..<ncols])" for q
    using collect_map_Inr [of "\<lambda>t. percentile_value np (column rows t) q" "[0..<ncols]"] assms
    by (simp add: np_percentile_def column_nonempty)
  then show ?thesis
    using collect_map_Inr [of "\<lambda>q. map (\<lambda>t. percentile_value np (column rows t) q) [0..<ncols]" qs]
    by (simp add: np_percentile_axis0_def)
qed

lemma length_cumprod_from: "length (cumprod_from np a xs) = length xs"
  by (induction xs arbitrary: a) simp_all

lemma length_np_cumprod: "length (np_cumprod np xs) = length xs"
  by (cases xs) (simp_all add: np_cumprod_def length_cumprod_from)

lemma simulate_result:
  assumes "1 \<le> default_arg 10000 a" and "0 \<le> default_arg 252 b"
  shows "simulate np rng rs a b =
         Inr \<lparr>simulations =
                map (\<lambda>i. map (\<lambda>j. np_add np (np_mean np rs) (np_mul np (np_std np rs) (Fin (rng i j))))
                            [0..<nat (default_arg 252 b)]) [0..<nat (default_arg 10000 a)],
              portfolio_values =
                map (\<lambda>i. np_cumprod np (map (np_add np (Fin 1))
                       (map (\<lambda>j. np_add np (np_mean np rs) (np_mul np (np_std np rs) (Fin (rng i j))))
                            [0..<nat (default_arg 252 b)]))) [0..<nat (default_arg 10000 a)],
              confidence_intervals =
                \<lparr>ci_95 = map (\<lambda>q. map (\<lambda>t. percentile_value np (column
                           (map (\<lambda>i. np_cumprod np (map (np_add np (Fin 1))
                             (map (\<lambda>j. np_add np (np_mean np rs) (np_mul np (np_std np rs) (Fin (rng i j))))
                               [0..<nat (default_arg 252 b)]))) [0..<nat (default_arg 10000 a)]) t) q)
                             [0..<nat (default_arg 252 b)]) [2.5, 97.5],
                 ci_99 = map (\<lambda>q. map (\<lambda>t. percentile_value np (column
                           (map (\<lambda>i. np_cumprod np (map (np_add np (Fin 1))
                             (map (\<lambda>j. np_add np (np_mean np rs) (np_mul np (np_std np rs) (Fin (rng i j))))
                               [0..<nat (default_arg 252 b)]))) [0..<nat (default_arg 10000 a)]) t) q)
                             [0..<nat (default_arg 252 b)]) [0.5, 99.5]\<rparr>\<rparr>"
proof -
  let ?n = "nat (default_arg 10000 a)" and ?p = "nat (default_arg 252 b)"
  let ?S = "map (\<lambda>i. map (\<lambda>j. np_add np (np_mean np rs) (np_mul np (np_std np rs) (Fin (rng i j))))
                            [0..<?p]) [0..<?n]"
  let ?PV = "map (\<lambda>row. np_cumprod np (map (np_add np (Fin 1)) row)) ?S"
  have m: "np_random_normal np rng (np_mean np rs) (np_std np rs) (default_arg 10000 a) (default_arg 252 b)
           = Inr ?S"
    using assms by (simp add: np_random_normal_def)
  have ne: "?PV \<noteq> []" using assms(1) by simp
  have ci: "calculate_confidence_intervals np ?p ?PV =
        Inr \<lparr>ci_95 = map (\<lambda>q. map (\<lambda>t. percentile_value np (column ?PV t) q) [0..<?p]) [2.5, 97.5],
             ci_99 = map (\<lambda>q. map (\<lambda>t. percentile_value np (column ?PV t) q) [0..<?p]) [0.5, 99.5]\<rparr>"
    unfolding calculate_confidence_intervals_def np_percentile_axis0_rows [OF ne] by simp
  have pv: "?PV = map (\<lambda>i. np_cumprod np (map (np_add np (Fin 1))
                       (map (\<lambda>j. np_add np (np_mean np rs) (np_mul np (np_std np rs) (Fin (rng i j))))
                            [0..<?p]))) [0..<?n]"
    by (simp add: comp_def)
  show ?thesis
    unfolding simulate_def Let_def m sum.case ci pv [symmetric] ..
qed

lemma np_insort_replicate:
  assumes "np_le x x"
  shows "np_insort x (replicate k x) = replicate (Suc k) x"
  using assms by (cases k) simp_all

lemma np_sort_replicate:
  assumes "np_le x x"
  shows "np_sort (replicate k x) = replicate k x"
proof (induction k)
  case 0
  then show ?case by (simp add: np_sort_def)
next
  case (Suc k)
  have "np_sort (replicate (Suc k) x) = np_insort x (np_sort (replicate k x))"
    by (simp add: np_sort_def)
  then show ?case using Suc np_insort_replicate [OF assms] by simp
qed

lemma lerp_same_Fin:
  assumes "fl np 0 = Fin 0" and "fl np v = Fin v"
  shows "lerp np (Fin v) (Fin v) g = Fin v"
  using assms by (simp add: lerp_def np_sub_def Let_def)

lemma lerp_same_PosInf: "lerp np PosInf PosInf g = NaN"
  by (simp add: lerp_def np_sub_def Let_def)


lemma percentile_value_replicate:
  assumes "1 \<le> n" and "x \<noteq> NaN" and "np_le x x"
  shows "\<exists>g. percentile_value np (replicate n x) q = lerp np x x g"
proof -
  have nan: "NaN \<notin> set (replicate n x)" using assms(2) by auto
  let ?h = "q / 100 * real (n - 1)"
  let ?lo = "min (nat \<lfloor>?h\<rfloor>) (n - 1)"
  let ?hi = "min (?lo + 1) (n - 1)"
  have lo: "?lo < n" and hi: "?hi < n" using assms(1) by simp_all
  have "percentile_value np (replicate n x) q
        = lerp np (replicate n x ! ?lo) (replicate n x ! ?hi) (?h - real ?lo)"
    unfolding percentile_value_def Let_def np_sort_replicate [OF assms(3)] if_not_P [OF nan]
      length_replicate ..
  also have "\<dots> = lerp np x x (?h - real ?lo)"
    unfolding nth_replicate [OF lo] nth_replicate [OF hi] ..
  finally show ?thesis by blast
qed

lemma percentile_value_replicate_Fin:
  assumes "1 \<le> n" and "fl np 0 = Fin 0" and "fl np v = Fin v"
  shows "percentile_value np (replicate n (Fin v)) q = Fin v"
  using percentile_value_replicate [OF assms(1), of "Fin v" np q] lerp_same_Fin [OF assms(2,3)]
  by auto

lemma percentile_value_replicate_PosInf:
  assumes "1 \<le> n"
  shows "percentile_value np (replicate n PosInf) q = NaN"
  using percentile_value_replicate [OF assms, of PosInf np q] lerp_same_PosInf
  by auto

lemma zero_sigma_result:
  assumes "np_mean np rs = Fin mu" and "np_std np rs = Fin 0"
    and "fl np 0 = Fin 0" and "fl np mu = Fin mu"
    and "1 \<le> default_arg 10000 a" and "0 \<le> default_arg 252 b"
  shows "simulate np rng rs a b =
         Inr \<lparr>simulations = replicate (nat (default_arg 10000 a)) (replicate (nat (default_arg 252 b)) (Fin mu)),
              portfolio_values = replicate (nat (default_arg 10000 a))
                (np_cumprod np (replicate (nat (default_arg 252 b)) (fl np (1 + mu)))),
              confidence_intervals =
                \<lparr>ci_95 = map (\<lambda>q. map (\<lambda>t. percentile_value np (replicate (nat (default_arg 10000 a))
                           (np_cumprod np (replicate (nat (default_arg 252 b)) (fl np (1 + mu))) ! t)) q)
                             [0..<nat (default_arg 252 b)]) [2.5, 97.5],
                 ci_99 = map (\<lambda>q. map (\<lambda>t. percentile_value np (replicate (nat (default_arg 10000 a))
                           (np_cumprod np (replicate (nat (default_arg 252 b)) (fl np (1 + mu))) ! t)) q)
                             [0..<nat (default_arg 252 b)]) [0.5, 99.5]\<rparr>\<rparr>"
proof -
  let ?n = "nat (default_arg 10000 a)" and ?p = "nat (default_arg 252 b)"
  let ?path = "np_cumprod np (replicate ?p (fl np (1 + mu)))"
  have entry: "np_add np (Fin mu) (np_mul np (Fin 0) (Fin z)) = Fin mu" for z
    using assms(3,4) by simp
  have row: "map (\<lambda>j. np_add np (np_mean np rs) (np_mul np (np_std np rs) (Fin (rng i j)))) [0..<?p]
             = replicate ?p (Fin mu)" for i
    unfolding assms(1,2) entry by (simp add: map_replicate_const)
  have prow: "np_cumprod np (map (np_add np (Fin 1)) (replicate ?p (Fin mu))) = ?path"
    by simp
  have rows: "map (\<lambda>i. replicate ?p (Fin mu)) [0..<?n] = replicate ?n (replicate ?p (Fin mu))"
    by (simp add: map_replicate_const)
  have prows: "map (\<lambda>i. ?path) [0..<?n] = replicate ?n ?path"
    by (simp add: map_replicate_const)
  have col: "column (replicate ?n ?path) t = replicate ?n (?path ! t)" for t
    by (simp add: column_def)
  show ?thesis
    unfolding simulate_result [OF assms(5,6)] row prow rows prows col ..
qed

lemma inf_of_sign_not_Fin: "inf_of_sign a \<noteq> Fin v"
  by (simp add: inf_of_sign_def)

lemma np_mul_Fin_fl:
  assumes "np_mul np x y = Fin v"
  shows "\<exists>z. fl np z = Fin v"
  using assms by (cases x; cases y) (auto simp: inf_of_sign_not_Fin)

lemma cumprod_from_Fin_fl:
  assumes "Fin v \<in> set (cumprod_from np acc xs)"
  shows "\<exists>z. fl np z = Fin v"
  using assms
proof (induction xs arbitrary: acc)
  case Nil
  then show ?case by simp
next
  case (Cons x xs)
  then show ?case using np_mul_Fin_fl [of np acc x v] by auto
qed

lemma np_cumprod_replicate_Fin_fl:
  assumes "Fin v \<in> set (np_cumprod np (replicate p (fl np c)))"
  shows "\<exists>z. fl np z = Fin v"
proof (cases p)
  case 0
  then show ?thesis using assms by (simp add: np_cumprod_def)
next
  case (Suc k)
  then have "Fin v = fl np c \<or> Fin v \<in> set (cumprod_from np (fl np c) (replicate k (fl np c)))"
    using assms by (simp add: np_cumprod_def)
  then show ?thesis using cumprod_from_Fin_fl [of v np] by metis
qed

lemma cumprod_from_replicate_exact:
  assumes "fl np = Fin"
  shows "cumprod_from np (Fin a) (replicate k (Fin c)) = map (\<lambda>t. Fin (a * c ^ Suc t)) [0..<k]"
proof (induction k arbitrary: a)
  case 0
  then show ?case by simp
next
  case (Suc k)
  have "cumprod_from np (Fin a) (replicate (Suc k) (Fin c))
        = Fin (a * c) # map (\<lambda>t. Fin (a * c * c ^ Suc t)) [0..<k]"
    using Suc.IH [of "a * c"] assms by simp
  also have "\<dots> = map (\<lambda>t. Fin (a * c ^ Suc t)) (0 # map Suc [0..<k])"
    by (simp add: comp_def mult.assoc)
  also have "0 # map Suc [0..<k] = [0..<Suc k]"
    by (simp add: map_Suc_upt upt_conv_Cons)
  finally show ?case .
qed

lemma np_cumprod_replicate_exact:
  assumes "fl np = Fin"
  shows "np_cumprod np (replicate p (Fin c)) = map (\<lambda>t. Fin (c ^ Suc t)) [0..<p]"
proof (cases p)
  case 0
  then show ?thesis by (simp add: np_cumprod_def)
next
  case (Suc k)
  have "np_cumprod np (replicate (Suc k) (Fin c))
        = Fin c # map (\<lambda>t. Fin (c * c ^ Suc t)) [0..<k]"
    using cumprod_from_replicate_exact [OF assms, of c k c] by (simp add: np_cumprod_def)
  also have "\<dots> = map (\<lambda>t. Fin (c ^ Suc t)) (0 # map Suc [0..<k])"
    by (simp add: comp_def)
  also have "0 # map Suc [0..<k] = [0..<Suc k]"
    by (simp add: map_Suc_upt upt_conv_Cons)
  finally show ?thesis using Suc by simp
qed

text \<open>
  Claim C8, as amended. For every arithmetic whose rounding keeps 0 and the numbers it
  returns: when the standard deviation that \<^verbatim>\<open>np.std\<close> returns is exactly 0 and the mean
  is \<open>mu\<close>, \<open>simulate\<close> with at least one simulation raises nothing, and every simulated
  path is the same running product of the factor \<open>1 + mu\<close>. At every period where that
  product is a finite number, the lower and the upper bound of both bands are equal to
  it. When nothing is rounded the product at period \<open>t\<close> (index \<open>t - 1\<close>) is
  \<open>(1 + mu) ^ t\<close>.
\<close>

theorem zero_sigma_paths:
  assumes "np_mean np returns = Fin mu" and "np_std np returns = Fin 0"
    and "fl np 0 = Fin 0" and "fl np mu = Fin mu"
    and "\<forall>x y. fl np x = Fin y \<longrightarrow> fl np y = Fin y"
    and "1 \<le> default_arg 10000 a" and "0 \<le> default_arg 252 b"
  shows "\<exists>res. simulate np rng returns a b = Inr res \<and>
           portfolio_values res
             = replicate (nat (default_arg 10000 a))
                 (np_cumprod np (replicate (nat (default_arg 252 b)) (fl np (1 + mu)))) \<and>
           (\<forall>t < nat (default_arg 252 b). \<forall>v.
              np_cumprod np (replicate (nat (default_arg 252 b)) (fl np (1 + mu))) ! t = Fin v \<longrightarrow>
                ci_99 (confidence_intervals res) ! 0 ! t = Fin v \<and>
                ci_95 (confidence_intervals res) ! 0 ! t = Fin v \<and>
                ci_95 (confidence_intervals res) ! 1 ! t = Fin v \<and>
                ci_99 (confidence_intervals res) ! 1 ! t = Fin v) \<and>
           (fl np = Fin \<longrightarrow>
              np_cumprod np (replicate (nat (default_arg 252 b)) (fl np (1 + mu)))
                = map (\<lambda>t. Fin ((1 + mu) ^ Suc t)) [0..<nat (default_arg 252 b)])"
proof -
  define n where "n = nat (default_arg 10000 a)"
  define p where "p = nat (default_arg 252 b)"
  define path where "path = np_cumprod np (replicate p (fl np (1 + mu)))"
  define res where "res =
     \<lparr>simulations = replicate n (replicate p (Fin mu)),
      portfolio_values = replicate n path,
      confidence_intervals =
        \<lparr>ci_95 = map (\<lambda>q. map (\<lambda>t. percentile_value np (replicate n (path ! t)) q) [0..<p]) [2.5, 97.5],
         ci_99 = map (\<lambda>q. map (\<lambda>t. percentile_value np (replicate n (path ! t)) q) [0..<p]) [0.5, 99.5]\<rparr>\<rparr>"
  have n: "1 \<le> n" using assms(6) by (simp add: n_def)
  have sim: "simulate np rng returns a b = Inr res"
    unfolding res_def path_def n_def p_def
    by (rule zero_sigma_result [OF assms(1-4,6,7)])
  have len: "length path = p" by (simp add: path_def length_np_cumprod)
  have bands: "ci_99 (confidence_intervals res) ! 0 ! t = Fin v \<and>
               ci_95 (confidence_intervals res) ! 0 ! t = Fin v \<and>
               ci_95 (confidence_intervals res) ! 1 ! t = Fin v \<and>
               ci_99 (confidence_intervals res) ! 1 ! t = Fin v"
    if t: "t < p" and v: "path ! t = Fin v" for t v
  proof -
    have "Fin v \<in> set path" using t v len by (metis nth_mem)
    then obtain z where "fl np z = Fin v"
      unfolding path_def using np_cumprod_replicate_Fin_fl by blast
    then have "fl np v = Fin v" using assms(5) by blast
    then have "percentile_value np (replicate n (path ! t)) q = Fin v" for q
      unfolding v by (rule percentile_value_replicate_Fin [OF n assms(3)])
    then show ?thesis using t by (simp add: res_def)
  qed
  have exact: "path = map (\<lambda>t. Fin ((1 + mu) ^ Suc t)) [0..<p]" if e: "fl np = Fin"
    unfolding path_def using np_cumprod_replicate_exact [OF e, of p "1 + mu"] e by simp
  have "portfolio_values res = replicate n path" by (simp add: res_def)
  then show ?thesis
    using sim bands exact unfolding path_def n_def p_def by blast
qed

theorem zero_sigma_paths_witness:
  "\<exists>res. simulate (exact_numpy Fin) (constant_draws 1) [1 / 10, 1 / 10] (Some 3) (Some 2) = Inr res \<and>
     portfolio_values res = replicate 3 [Fin (11 / 10), Fin (121 / 100)] \<and>
     ci_99 (confidence_intervals res) ! 0 ! 1 = Fin (121 / 100) \<and>
     ci_95 (confidence_intervals res) ! 0 ! 1 = Fin (121 / 100) \<and>
     ci_95 (confidence_intervals res) ! 1 ! 1 = Fin (121 / 100) \<and>
     ci_99 (confidence_intervals res) ! 1 ! 1 = Fin (121 / 100)"
proof -
  let ?np = "exact_numpy Fin"
  have m: "np_mean ?np [1 / 10, 1 / 10] = Fin (1 / 10)"
    by (simp add: exact_numpy_simps mean_def)
  have s: "np_std ?np [1 / 10, 1 / 10] = Fin 0"
    by (simp add: exact_numpy_simps variance_def mean_def)
  have z: "fl ?np 0 = Fin 0" and f: "fl ?np (1 / 10) = Fin (1 / 10)"
    and idem: "\<forall>x y. fl ?np x = Fin y \<longrightarrow> fl ?np y = Fin y"
    and e: "fl ?np = Fin"
    by (simp_all add: exact_numpy_simps)
  have n: "1 \<le> default_arg (10000::int) (Some 3)" and p: "0 \<le> default_arg (252::int) (Some 2)"
    by (simp_all add: default_arg_def)
  have u: "[0..<2::nat] = [0, 1]" by (simp add: upt_conv_Cons)
  obtain res where res: "simulate ?np (constant_draws 1) [1 / 10, 1 / 10] (Some 3) (Some 2) = Inr res"
    and pv: "portfolio_values res = replicate (nat (default_arg 10000 (Some 3)))
                 (np_cumprod ?np (replicate (nat (default_arg 252 (Some 2))) (fl ?np (1 + 1 / 10))))"
    and bands: "\<forall>t < nat (default_arg 252 (Some 2)). \<forall>v.
              np_cumprod ?np (replicate (nat (default_arg 252 (Some 2))) (fl ?np (1 + 1 / 10))) ! t = Fin v \<longrightarrow>
                ci_99 (confidence_intervals res) ! 0 ! t = Fin v \<and>
                ci_95 (confidence_intervals res) ! 0 ! t = Fin v \<and>
                ci_95 (confidence_intervals res) ! 1 ! t = Fin v \<and>
                ci_99 (confidence_intervals res) ! 1 ! t = Fin v"
    and path: "np_cumprod ?np (replicate (nat (default_arg 252 (Some 2))) (fl ?np (1 + 1 / 10)))
                = map (\<lambda>t. Fin ((1 + 1 / 10) ^ Suc t)) [0..<nat (default_arg 252 (Some 2))]"
    using zero_sigma_paths [OF m s z f idem n p, of "constant_draws 1"] e by blast
  have path': "np_cumprod ?np (replicate (nat (default_arg 252 (Some 2))) (fl ?np (1 + 1 / 10)))
               = [Fin (11 / 10), Fin (121 / 100)]"
    unfolding path by (simp add: default_arg_def u power2_eq_square)
  have "portfolio_values res = replicate 3 [Fin (11 / 10), Fin (121 / 100)]"
    using pv unfolding path' by (simp add: default_arg_def)
  moreover have "ci_99 (confidence_intervals res) ! 0 ! 1 = Fin (121 / 100) \<and>
     ci_95 (confidence_intervals res) ! 0 ! 1 = Fin (121 / 100) \<and>
     ci_95 (confidence_intervals res) ! 1 ! 1 = Fin (121 / 100) \<and>
     ci_99 (confidence_intervals res) ! 1 ! 1 = Fin (121 / 100)"
    using bands unfolding path' by (simp add: default_arg_def)
  ultimately show ?thesis using res by blast
qed

lemma overflow_only_mul:
  assumes "0 < a" and "1 \<le> c"
  shows "np_mul (exact_numpy overflow_only) (overflow_only a) (Fin c) = overflow_only (a * c)"
proof (cases "overflow_threshold \<le> a")
  case True
  have "a * 1 \<le> a * c" using assms by (intro mult_left_mono) simp_all
  then have "overflow_threshold \<le> a * c" using True by simp
  moreover have "0 < a * c" using assms by simp
  ultimately show ?thesis
    using True assms by (simp add: overflow_only_def inf_of_sign_def abs_of_pos)
next
  case False
  then show ?thesis using assms by (simp add: overflow_only_def exact_numpy_simps)
qed

lemma cumprod_from_overflow_only:
  assumes "0 < a" and "1 \<le> c"
  shows "cumprod_from (exact_numpy overflow_only) (overflow_only a) (replicate k (Fin c))
         = map (\<lambda>t. overflow_only (a * c ^ Suc t)) [0..<k]"
  using assms(1)
proof (induction k arbitrary: a)
  case 0
  then show ?case by simp
next
  case (Suc k)
  have pos: "0 < a * c" using Suc.prems assms(2) by simp
  have "cumprod_from (exact_numpy overflow_only) (overflow_only a) (replicate (Suc k) (Fin c))
        = overflow_only (a * c) # map (\<lambda>t. overflow_only (a * c * c ^ Suc t)) [0..<k]"
    using Suc.IH [OF pos] overflow_only_mul [OF Suc.prems assms(2)] by simp
  also have "\<dots> = map (\<lambda>t. overflow_only (a * c ^ Suc t)) (0 # map Suc [0..<k])"
    by (simp add: comp_def mult.assoc)
  also have "0 # map Suc [0..<k] = [0..<Suc k]"
    by (simp add: map_Suc_upt upt_conv_Cons)
  finally show ?case .
qed

lemma np_cumprod_overflow_only:
  assumes "1 \<le> c" and "c < overflow_threshold"
  shows "np_cumprod (exact_numpy overflow_only) (replicate p (Fin c))
         = map (\<lambda>t. overflow_only (c ^ Suc t)) [0..<p]"
proof (cases p)
  case 0
  then show ?thesis by (simp add: np_cumprod_def)
next
  case (Suc k)
  have c: "0 < c" using assms by simp
  have fc: "Fin c = overflow_only c" using assms c by (simp add: overflow_only_def abs_of_pos)
  have "np_cumprod (exact_numpy overflow_only) (replicate (Suc k) (Fin c))
        = Fin c # cumprod_from (exact_numpy overflow_only) (Fin c) (replicate k (Fin c))"
    by (simp add: np_cumprod_def)
  also have "\<dots> = overflow_only c # map (\<lambda>t. overflow_only (c * c ^ Suc t)) [0..<k]"
    using cumprod_from_overflow_only [OF c assms(1), of k] fc by simp
  also have "\<dots> = map (\<lambda>t. overflow_only (c ^ Suc t)) (0 # map Suc [0..<k])"
    by (simp add: comp_def)
  also have "0 # map Suc [0..<k] = [0..<Suc k]"
    by (simp add: map_Suc_upt upt_conv_Cons)
  finally show ?thesis using Suc by simp
qed

lemma overflow_facts:
  "(1::real) \<le> 2 ^ 53" "(2::real) ^ 53 < overflow_threshold"
  "overflow_threshold \<le> ((2::real) ^ 53) ^ 20" "2 ^ 53 - 1 < overflow_threshold"
  "(0::real) < 2 ^ 53 - 1"
proof -
  show "(1::real) \<le> 2 ^ 53" by (rule one_le_power) simp
  show a: "(2::real) ^ 53 < overflow_threshold"
    unfolding overflow_threshold_def by (rule power_strict_increasing) simp_all
  have "((2::real) ^ 53) ^ 20 = 2 ^ (53 * 20)" by (rule power_mult [symmetric])
  moreover have "(2::real) ^ 1024 \<le> 2 ^ (53 * 20)" by (rule power_increasing) simp_all
  ultimately show "overflow_threshold \<le> ((2::real) ^ 53) ^ 20"
    unfolding overflow_threshold_def by simp
  show "(2::real) ^ 53 - 1 < overflow_threshold" using a by linarith
  have "(1::real) < 2 ^ 53" by (rule one_less_power) simp_all
  then show "(0::real) < 2 ^ 53 - 1" by simp
qed

lemma overflowed_period:
  assumes m: "0 < m" "1 + m < overflow_threshold"
    and ov: "overflow_threshold \<le> (1 + m) ^ Suc t" and t: "t < p" and k: "1 \<le> k"
  shows "np_std (exact_numpy overflow_only) [m, m] = Fin 0"
    and "period_bounds (simulate (exact_numpy overflow_only) rng [m, m] (Some (int k)) (Some (int p))) t
         = Inr (PosInf, [NaN, NaN, NaN, NaN])"
proof -
  let ?np = "exact_numpy overflow_only"
  have thr: "0 < overflow_threshold" "m < overflow_threshold" using m by linarith+
  have mean: "mean [m, m] = m" by (simp add: mean_def)
  have var: "variance [m, m] = 0" by (simp add: variance_def mean)
  have f0: "fl ?np 0 = Fin 0" using thr by (simp add: exact_numpy_simps overflow_only_def)
  have fm: "fl ?np m = Fin m" using thr m by (simp add: exact_numpy_simps overflow_only_def abs_of_pos)
  have f1: "fl ?np (1 + m) = Fin (1 + m)"
    using m by (simp add: exact_numpy_simps overflow_only_def abs_of_pos)
  have nm: "np_mean ?np [m, m] = Fin m" using fm by (simp add: exact_numpy_simps mean)
  show ns: "np_std ?np [m, m] = Fin 0" using f0 by (simp add: exact_numpy_simps var)
  have n: "1 \<le> default_arg (10000::int) (Some (int k))"
    and p: "0 \<le> default_arg (252::int) (Some (int p))"
    using k by (simp_all add: default_arg_def)
  have d: "nat (default_arg 10000 (Some (int k))) = k" "nat (default_arg 252 (Some (int p))) = p"
    by (simp_all add: default_arg_def)
  have c: "1 \<le> 1 + m" using m by simp
  have path: "np_cumprod ?np (replicate p (fl ?np (1 + m))) ! t = PosInf"
  proof -
    have "np_cumprod ?np (replicate p (Fin (1 + m))) ! t = overflow_only ((1 + m) ^ Suc t)"
      unfolding np_cumprod_overflow_only [OF c m(2)] using t by simp
    moreover have "0 < (1 + m) ^ Suc t" using m by simp
    ultimately show ?thesis
      unfolding f1 using ov m(1) by (simp add: overflow_only_def inf_of_sign_def abs_of_pos del: power_Suc)
  qed
  have band: "percentile_value ?np (replicate k PosInf) q = NaN" for q
    by (rule percentile_value_replicate_PosInf [OF k])
  have first: "replicate k x ! 0 = x" for x :: "npfloat list"
    using k by simp
  show "period_bounds (simulate ?np rng [m, m] (Some (int k)) (Some (int p))) t
         = Inr (PosInf, [NaN, NaN, NaN, NaN])"
    unfolding zero_sigma_result [OF nm ns f0 fm n p] d period_bounds_def
    using t path band first by (simp del: replicate.simps)
qed

text \<open>
  The claim as stated fails once the product overflows. The return sample
  \<open>[2 ^ 53 - 1, 2 ^ 53 - 1]\<close> has the standard deviation 0 and gives the factor
  \<open>2 ^ 53\<close>; every product up to period 19 is a power of two and a \<^verbatim>\<open>float64\<close>, and at
  period 20 (index 19) the path is infinite and the four bounds are NaN, since the
  interpolation subtracts infinity from infinity.
\<close>

theorem zero_sigma_overflow_counterexample:
  "np_std (exact_numpy overflow_only) [2 ^ 53 - 1, 2 ^ 53 - 1] = Fin 0 \<and>
   period_bounds
     (simulate (exact_numpy overflow_only) (constant_draws 1) [2 ^ 53 - 1, 2 ^ 53 - 1]
        (Some 1) (Some 20)) 19
   = Inr (PosInf, [NaN, NaN, NaN, NaN])"
proof -
  have a: "(0::real) < 2 ^ 53 - 1" by (rule overflow_facts(5))
  have b: "1 + ((2::real) ^ 53 - 1) < overflow_threshold" using overflow_facts(2) by simp
  have c: "overflow_threshold \<le> (1 + ((2::real) ^ 53 - 1)) ^ Suc 19"
    using overflow_facts(3) by simp
  have t: "(19::nat) < 20" and k: "(1::nat) \<le> 1" by simp_all
  show ?thesis
    using overflowed_period(1) [OF a b c t k]
      overflowed_period(2) [OF a b c t k, of "constant_draws 1"] by simp
qed



















section \<open>Properties of the orchestrator\<close>

lemma simulate_shape:
  assumes "1 \<le> default_arg 10000 a" and "0 \<le> default_arg 252 b"
  shows "\<exists>res. simulate np rng rs a b = Inr res \<and>
           map length (simulations res) = replicate (nat (default_arg 10000 a)) (nat (default_arg 252 b)) \<and>
           map length (portfolio_values res) = replicate (nat (default_arg 10000 a)) (nat (default_arg 252 b))"
  unfolding simulate_result [OF assms]
  by (simp add: comp_def length_np_cumprod map_replicate_const)

text \<open>
  Claim C10. Whatever the framework holds, and so for every configuration, with any
  further keys, and for every arithmetic, the Monte Carlo stage of the run calls
  \<open>simulate\<close> without arguments: the stage is \<open>simulate\<close> with 10000 simulations of 252
  periods, its result has that shape, replacing the configuration does not change it, and
  the report of a run that returns carries a simulation of that shape.
\<close>

theorem monte_carlo_stage_defaults:
  "(\<exists>res. monte_carlo_stage np rng self st = Inr res \<and>
      map length (simulations res) = replicate 10000 252 \<and>
      map length (portfolio_values res) = replicate 10000 252) \<and>
   monte_carlo_stage np rng (self\<lparr>fw_config := cfg\<rparr>) st = monte_carlo_stage np rng self st \<and>
   monte_carlo_stage np rng self st
     = simulate np rng (strategy_returns (fw_strategy self) st) (Some 10000) (Some 252) \<and>
   (run_comprehensive_backtest np lib rng self st = Inr (report, st') \<longrightarrow>
      map length (simulations (monte_carlo_simulation report)) = replicate 10000 252)"
proof -
  have d: "default_arg (10000::int) None = 10000" "default_arg (252::int) None = 252"
    by (simp_all add: default_arg_def)
  have shape: "\<exists>res. monte_carlo_stage np rng self s = Inr res \<and>
      map length (simulations res) = replicate 10000 252 \<and>
      map length (portfolio_values res) = replicate 10000 252" for s
    using simulate_shape [of None None np rng "strategy_returns (fw_strategy self) s"]
    by (simp add: monte_carlo_stage_def d)
  have cfg: "monte_carlo_stage np rng (self\<lparr>fw_config := cfg\<rparr>) st = monte_carlo_stage np rng self st"
    by (simp add: monte_carlo_stage_def)
  have expl: "monte_carlo_stage np rng self st
     = simulate np rng (strategy_returns (fw_strategy self) st) (Some 10000) (Some 252)"
    by (simp add: monte_carlo_stage_def simulate_def default_arg_def)
  have run: "map length (simulations (monte_carlo_simulation report)) = replicate 10000 252"
    if r: "run_comprehensive_backtest np lib rng self st = Inr (report, st')"
  proof -
    from r obtain wf where "walk_forward_stage self st = Inr (wf, st')"
      by (auto simp: run_comprehensive_backtest_def split: sum.splits prod.splits)
    with r have "monte_carlo_stage np rng self st' = Inr (monte_carlo_simulation report)"
      by (auto simp: run_comprehensive_backtest_def split: sum.splits prod.splits)
    then show ?thesis using shape [of st'] by auto
  qed
  show ?thesis using shape [of st] cfg expl run by blast
qed

theorem monte_carlo_stage_defaults_witness:
  "\<exists>report st'.
     run_comprehensive_backtest (exact_numpy Fin)
       \<lparr>shapiro = returning (1::real), jarque_bera = returning 2, anderson = returning 3,
        acorr_ljungbox = returning 4, runs_test = returning 5, corrcoef = returning 6\<rparr>
       (\<lambda>i j. 0)
       \<lparr>fw_strategy = fixed_strategy [1, 2] [\<lparr>volume = 100, spread = 0.01\<rparr>],
        fw_data = [1, 2, 3 :: real],
        fw_config = \<lparr>cfg_window_size = 2, cfg_forecast_horizon = 1,
                     cfg_benchmark_returns = [1, 3],
                     cfg_broker_config = \<lparr>commission_rate = 0.001, slippage_rate = 0.0005,
                                          market_impact_rate = 0.0001\<rparr>\<rparr>\<rparr>
       () = Inr (report, st') \<and>
     map length (simulations (monte_carlo_simulation report)) = replicate 10000 252"
proof -
  let ?lib = "\<lparr>shapiro = returning (1::real), jarque_bera = returning 2, anderson = returning 3,
        acorr_ljungbox = returning 4, runs_test = returning 5, corrcoef = returning 6\<rparr>"
  let ?rng = "\<lambda>(i::nat) (j::nat). 0 :: real"
  let ?np = "exact_numpy Fin"
  let ?self = "\<lparr>fw_strategy = fixed_strategy [1, 2] [\<lparr>volume = 100, spread = 0.01\<rparr>],
        fw_data = [1, 2, 3 :: real],
        fw_config = \<lparr>cfg_window_size = 2, cfg_forecast_horizon = 1,
                     cfg_benchmark_returns = [1, 3],
                     cfg_broker_config = \<lparr>commission_rate = 0.001, slippage_rate = 0.0005,
                                          market_impact_rate = 0.0001\<rparr>\<rparr>\<rparr>"
  note inst = monte_carlo_stage_defaults [of ?np ?rng ?self "()" "fw_config ?self" ?lib]
  obtain res where mc: "monte_carlo_stage ?np ?rng ?self () = Inr res"
    using inst by blast
  have wf: "walk_forward_stage ?self () = Inr ([0], ())"
    by (simp add: walk_forward_stage_def generate_walk_forward_splits_def
        WalkForwardAnalysis_init_def py_range_def range_len_def split_pair_def split_bounds_def
        fixed_strategy_def Let_def)
  have risk: "\<exists>r. risk_stage ?np ?self () = Inr r"
    by (simp add: risk_stage_def decompose_risk_def calculate_specific_risk_def
        calculate_beta_def np_cov01_def fixed_strategy_def Let_def)
  have val: "\<exists>v. validation_stage ?lib ?self () = Inr v"
    by (simp add: validation_stage_def normality_tests_def independence_tests_def
        correlation_analysis_def returning_def Let_def)
  obtain report where run: "run_comprehensive_backtest ?np ?lib ?rng ?self () = Inr (report, ())"
    using wf mc risk val by (auto simp: run_comprehensive_backtest_def)
  then have "map length (simulations (monte_carlo_simulation report)) = replicate 10000 252"
    using inst [of report "()"] by blast
  then show ?thesis using run by blast
qed

end
